theory Spec2Isabelle
  imports Complex_Main "HOL-Library.Product_Lexorder" "HOL-Library.AList" "HOL-Library.Multiset"
begin

section \<open>The FMP client (FMP.py)\<close>

text \<open>
  The client issues HTTP GET requests against the financialmodelingprep API, turns the
  JSON bodies into pandas tables and adds percent-change and date-bucket columns.

  The embedding follows FMP.py function by function. The Python exceptions are values
  of \<open>pyerr\<close>; a function that can raise returns \<open>pyerr + 'a\<close>. The network is a
  function from the requested URL to the response; every GET is appended to the
  \<open>requests\<close> log of the state. Python list objects that are passed by reference live
  in the \<open>lists\<close> store of the state.

  What the model takes from the libraries (requests, pandas), and where it abstracts:
  \<^item> A response has a status code and a JSON body. The bodies are the shapes the API
    sends: the empty object \<open>{}\<close>, an object with the single key \<open>Error Message\<close>, the
    object \<open>{"symbol": s, "historical": [bar, ...]}\<close> of the daily endpoint, and the
    list of candles of the intraday endpoint.
  \<^item> A bar of the daily endpoint has a \<open>date\<close> text \<open>YYYY-MM-DD\<close>, kept as the triple
    (year, month, day), the lexicographic order of triples being the order of the
    zero-padded texts; a numeric \<open>adjClose\<close>; and its further fields, kept opaque. Every
    bar carries the same further fields, none of them null and none named like a column
    the client adds, and no ticker symbol is the name of a column.
  \<^item> Prices are exact rationals: floating-point rounding is outside the model. A
    division by zero yields an infinity or NaN, as it does in numpy.
  \<^item> \<open>sort_values\<close> is modelled by a stable sort.
  \<^item> \<open>requests.get\<close> delivers a response: a failure of the transport is not modelled.
  \<^item> The calls of pandas behave as in its version 1, for which the client is written
    (\<open>astype('datetime64[M]')\<close> truncates a timestamp to its month, and a merge may
    produce suffixed column names).
  \<^item> \<open>print\<close> is not modelled.
\<close>

subsection \<open>Python values and errors\<close>

text \<open>
  The exception classes that occur. \<open>ParserError\<close> stands for the subclasses of
  ValueError that pandas raises on a date text (ParserError, OutOfBoundsDatetime);
  \<open>ValueError\<close> is a ValueError raised with its own class. A KeyError names its key.
\<close>

datatype pyerr = TypeError | ValueError | ParserError | KeyError string | ConnectionError

datatype pyval = PyNone | PyStr string

subsection \<open>JSON bodies, responses, the network\<close>

type_synonym date = "nat \<times> nat \<times> nat"

record 'a bar =
  bar_date :: date
  bar_adjClose :: rat
  bar_fields :: 'a

datatype 'a body =
    Empty_object
  | Error_message string
  | Historical string "'a bar list"
  | Chart "'a list"

record 'a response =
  status_code :: int
  json :: "'a body"

type_synonym 'a network = "string \<Rightarrow> 'a response"

record state =
  requests :: "string list"
  lists :: "nat \<Rightarrow> string list"

definition requests_get :: "'a network \<Rightarrow> string \<Rightarrow> state \<Rightarrow> 'a response \<times> state" where
  "requests_get net url s = (net url, s\<lparr>requests := requests s @ [url]\<rparr>)"

subsection \<open>Floating-point results of a division\<close>

datatype fl = Fin rat | PInf | NInf | NaN

definition fl_div :: "rat \<Rightarrow> rat \<Rightarrow> fl" where
  "fl_div a b =
     (if b = 0 then (if a = 0 then NaN else if 0 < a then PInf else NInf)
      else Fin (a / b))"

fun fl_minus_one :: "fl \<Rightarrow> fl" where
  "fl_minus_one (Fin x) = Fin (x - 1)"
| "fl_minus_one PInf = PInf"
| "fl_minus_one NInf = NInf"
| "fl_minus_one NaN = NaN"

text \<open>
  \<open>Series.pct_change()\<close> computes \<open>data / data.shift(1) - 1\<close>: the first entry has no
  predecessor and is NaN.
\<close>

fun pct_change_from :: "rat \<Rightarrow> rat list \<Rightarrow> fl list" where
  "pct_change_from prev [] = []"
| "pct_change_from prev (x # xs) = fl_minus_one (fl_div x prev) # pct_change_from x xs"

fun pct_change :: "rat list \<Rightarrow> fl list" where
  "pct_change [] = []"
| "pct_change (x # xs) = NaN # pct_change_from x xs"

subsection \<open>Tables\<close>

datatype cell = Float_cell fl | Timestamp_cell int | Period_cell int | Int_cell int

record 'a row =
  date :: date
  symbol :: string
  adjClose :: rat
  other :: 'a
  added :: "(string \<times> cell) list"

datatype 'a frame = From_dict "'a body" | Prices "'a row list"

text \<open>\<open>df[name] = values\<close>: the column is replaced where it exists and appended otherwise.\<close>

definition set_column :: "string \<Rightarrow> cell list \<Rightarrow> 'a row list \<Rightarrow> 'a row list" where
  "set_column name cells df =
     map (\<lambda>(r, c). r\<lparr>added := AList.update name c (added r)\<rparr>) (zip df cells)"

definition column :: "string \<Rightarrow> 'a row \<Rightarrow> cell option" where
  "column name r = map_of (added r) name"

text \<open>\<open>df.drop_duplicates(subset=[name], keep='first')\<close>, with the keys seen so far.\<close>

fun drop_duplicates_from :: "('r \<Rightarrow> 'k) \<Rightarrow> 'k list \<Rightarrow> 'r list \<Rightarrow> 'r list" where
  "drop_duplicates_from key seen [] = []"
| "drop_duplicates_from key seen (r # rs) =
     (if key r \<in> set seen then drop_duplicates_from key seen rs
      else r # drop_duplicates_from key (key r # seen) rs)"

definition drop_duplicates :: "('r \<Rightarrow> 'k) \<Rightarrow> 'r list \<Rightarrow> 'r list" where
  "drop_duplicates key df = drop_duplicates_from key [] df"

subsection \<open>The calendar of pandas timestamps\<close>

definition leap :: "nat \<Rightarrow> bool" where
  "leap y \<longleftrightarrow> y mod 4 = 0 \<and> (y mod 100 \<noteq> 0 \<or> y mod 400 = 0)"

definition days_in_month :: "nat \<Rightarrow> nat \<Rightarrow> nat" where
  "days_in_month y m =
     (if m = 2 then (if leap y then 29 else 28)
      else if m = 4 \<or> m = 6 \<or> m = 9 \<or> m = 11 then 30 else 31)"

text \<open>
  The days from 1970-01-01 to the first of January of the year \<open>y\<close>, for \<open>y\<close> from 1
  on: 365 for every year and one more for every leap year before \<open>y\<close>; 477 leap years
  lie before 1970.
\<close>

definition days_before_year :: "nat \<Rightarrow> int" where
  "days_before_year y =
     365 * (int y - 1970)
     + (int ((y - 1) div 4) - int ((y - 1) div 100) + int ((y - 1) div 400)) - 477"

definition days_before_month :: "nat \<Rightarrow> nat \<Rightarrow> nat" where
  "days_before_month y m = sum_list (map (days_in_month y) [1..<m])"

text \<open>Days since 1970-01-01 of a date of the proleptic Gregorian calendar.\<close>

fun days_from_civil :: "date \<Rightarrow> int" where
  "days_from_civil (y, m, d) =
     days_before_year y + int (days_before_month y m) + int d - 1"

text \<open>
  \<open>pd.to_datetime\<close> raises on a text that is no calendar date or lies outside the
  nanosecond range of a Timestamp, 1677-09-22 to 2262-04-11 for midnights.
\<close>

fun valid_date :: "date \<Rightarrow> bool" where
  "valid_date (y, m, d) \<longleftrightarrow>
     1 \<le> m \<and> m \<le> 12 \<and> 1 \<le> d \<and> d \<le> days_in_month y m \<and> 1 \<le> y
     \<and> - 106751 \<le> days_from_civil (y, m, d) \<and> days_from_civil (y, m, d) \<le> 106751"

definition to_datetime :: "date list \<Rightarrow> pyerr + int list" where
  "to_datetime ds =
     (if list_all valid_date ds then Inr (map days_from_civil ds) else Inl ParserError)"

text \<open>
  \<open>dt.to_period('w')\<close> is the week ending on Sunday; \<open>start_time\<close> is its Monday.
  Day 0 is a Thursday.
\<close>

definition week_start :: "int \<Rightarrow> int" where
  "week_start n = n - (n + 3) mod 7"

text \<open>\<open>astype('datetime64[M]')\<close>: the first day of the month.\<close>

fun month_start :: "date \<Rightarrow> int" where
  "month_start (y, m, d) = days_from_civil (y, m, 1)"

text \<open>The ordinal of the quarterly period (quarters ending in December) since 1970Q1.\<close>

fun quarter_ordinal :: "date \<Rightarrow> int" where
  "quarter_ordinal (y, m, d) = (int y - 1970) * 4 + (int m - 1) div 3"

fun year_of :: "date \<Rightarrow> int" where
  "year_of (y, m, d) = int y"

subsection \<open>The class FMP\<close>

record fmp =
  fmp_key :: string
  fmp_ticker :: string

text \<open>
  \<open>__init__\<close> stores both fields and returns \<open>self._ticker\<close>. The pair is the object after
  the call and the value returned.
\<close>

definition init :: "string \<Rightarrow> string \<Rightarrow> fmp \<times> pyval" where
  "init key ticker = (\<lparr>fmp_key = key, fmp_ticker = ticker\<rparr>, PyStr ticker)"

text \<open>
  The call \<open>FMP(key, ticker)\<close>: Python runs \<open>__init__\<close> on the new object and raises
  TypeError when it returns anything but None. The default ticker is the text \<open>'None'\<close>.
\<close>

definition FMP :: "string \<Rightarrow> string option \<Rightarrow> pyerr + fmp" where
  "FMP key ticker =
     (case init key (case ticker of None \<Rightarrow> ''None'' | Some t \<Rightarrow> t) of
        (self, returned) \<Rightarrow> if returned = PyNone then Inr self else Inl TypeError)"

text \<open>
  \<open>pd.DataFrame.from_dict\<close> on a body: a dict whose values are all scalars is refused
  with a ValueError (no index given); the empty dict, a list of records and a dict with
  a list give a table, which is kept as the body it was built from.
\<close>

fun DataFrame_from_dict :: "'a body \<Rightarrow> pyerr + 'a frame" where
  "DataFrame_from_dict (Error_message m) = Inl ValueError"
| "DataFrame_from_dict b = Inr (From_dict b)"

definition get_df :: "'a network \<Rightarrow> string \<Rightarrow> state \<Rightarrow> (pyerr + 'a frame) \<times> state" where
  "get_df net url s =
     (case requests_get net url s of
        (response, s') \<Rightarrow>
          if status_code response = 200 then (DataFrame_from_dict (json response), s')
          else (Inl ConnectionError, s'))"

definition row_of_bar :: "string \<Rightarrow> 'a bar \<Rightarrow> 'a row" where
  "row_of_bar symbol' b =
     \<lparr>date = bar_date b, symbol = symbol', adjClose = bar_adjClose b, other = bar_fields b,
      added = []\<rparr>"

text \<open>
  \<open>_get_historical_fmp\<close>. On status 200: \<open>{}\<close> gives None; subscripting with
  \<open>'symbol'\<close> raises KeyError on an object without that key and TypeError on a list; the
  table of an empty \<open>historical\<close> list has no \<open>date\<close> column to sort by (KeyError).
  Otherwise the rows get the symbol, are sorted by date and indexed by it.
\<close>

definition get_historical_fmp ::
  "'a network \<Rightarrow> string \<Rightarrow> state \<Rightarrow> (pyerr + 'a row list option) \<times> state" where
  "get_historical_fmp net url s =
     (case requests_get net url s of
        (response, s') \<Rightarrow>
          if status_code response = 200 then
            (case json response of
               Empty_object \<Rightarrow> (Inr None, s')
             | Error_message m \<Rightarrow> (Inl (KeyError ''symbol''), s')
             | Chart cs \<Rightarrow> (Inl TypeError, s')
             | Historical symbol' bars \<Rightarrow>
                 if bars = [] then (Inl (KeyError ''date''), s')
                 else (Inr (Some (sort_key date (map (row_of_bar symbol') bars))), s'))
          else (Inl ConnectionError, s'))"

definition chart_url :: "string \<Rightarrow> string \<Rightarrow> string \<Rightarrow> string" where
  "chart_url interval ticker key =
     ''https://financialmodelingprep.com/api/v3/historical-chart/'' @ interval @ ''/''
     @ ticker @ ''?apikey='' @ key"

definition daily_url :: "string \<Rightarrow> string \<Rightarrow> string" where
  "daily_url ticker key =
     ''https://financialmodelingprep.com/api/v3/historical-price-full/'' @ ticker
     @ ''?apikey='' @ key"

text \<open>\<open>historical_df['pct change'] = historical_df['adjClose'].pct_change()\<close>\<close>

definition with_pct_change :: "'a row list \<Rightarrow> 'a row list" where
  "with_pct_change df =
     set_column ''pct change'' (map Float_cell (pct_change (map adjClose df))) df"

text \<open>
  The weekly to yearly part of \<open>historical_price_by_interval\<close>, on the daily table with
  its \<open>pct change\<close> column: the \<open>daily\<close> timestamps, then the bucket column of the
  interval and the first row of every bucket. An interval other than the four is
  refused only here.
\<close>

definition bucket_name :: "string \<Rightarrow> string" where
  "bucket_name interval =
     (if interval = ''1w'' then ''week'' else if interval = ''1m'' then ''monthly''
      else if interval = ''1q'' then ''quarter'' else ''year'')"

definition bucket_cell :: "string \<Rightarrow> date \<Rightarrow> cell" where
  "bucket_cell interval d =
     (if interval = ''1w'' then Timestamp_cell (week_start (days_from_civil d))
      else if interval = ''1m'' then Timestamp_cell (month_start d)
      else if interval = ''1q'' then Period_cell (quarter_ordinal d)
      else Int_cell (year_of d))"

definition resample :: "string \<Rightarrow> 'a row list \<Rightarrow> pyerr + 'a frame" where
  "resample interval df =
     (case to_datetime (map date df) of
        Inl e \<Rightarrow> Inl e
      | Inr stamps \<Rightarrow>
          (let df1 = set_column ''daily'' (map Timestamp_cell stamps) df in
           if interval = ''1w'' \<and> \<not> list_all (\<lambda>n. - 106751 \<le> week_start n) stamps
           then Inl ParserError
           else if interval = ''1w'' \<or> interval = ''1m'' \<or> interval = ''1q''
                   \<or> interval = ''1y''
           then Inr (Prices (drop_duplicates (column (bucket_name interval))
                  (set_column (bucket_name interval)
                     (map (bucket_cell interval) (map date df1)) df1)))
           else Inl ValueError))"

definition historical_price_by_interval ::
  "fmp \<Rightarrow> 'a network \<Rightarrow> string option \<Rightarrow> string \<Rightarrow> state \<Rightarrow> (pyerr + 'a frame) \<times> state"
  where
  "historical_price_by_interval self net ticker interval s =
     (let ticker = (case ticker of Some t \<Rightarrow> t | None \<Rightarrow> fmp_ticker self) in
      if interval \<in> set [''4hour'', ''1hour'', ''30min'', ''15min'', ''5min'', ''1min'']
      then get_df net (chart_url interval ticker (fmp_key self)) s
      else if interval = ''1d'' then
        (case get_historical_fmp net (daily_url ticker (fmp_key self)) s of
           (Inl e, s') \<Rightarrow> (Inl e, s')
         | (Inr None, s') \<Rightarrow> (Inl TypeError, s')
         | (Inr (Some historical_df), s') \<Rightarrow> (Inr (Prices (with_pct_change historical_df)), s'))
      else
        (case get_historical_fmp net (daily_url ticker (fmp_key self)) s of
           (Inl e, s') \<Rightarrow> (Inl e, s')
         | (Inr None, s') \<Rightarrow> (Inl TypeError, s')
         | (Inr (Some historical_df), s') \<Rightarrow>
             (resample interval (with_pct_change historical_df), s')))"

subsection \<open>get_multiple_returns\<close>

text \<open>
  The period of \<open>get_multiple_returns\<close> is one of the options of its docstring. A period
  of a date is kept by its number: the day number, the number of the week from Monday to
  Sunday (the week of 1970-01-01 has number 1), and the months, quarters and years
  counted from 1970.
\<close>

datatype period = D | W | M | Q | Y

fun to_period :: "period \<Rightarrow> date \<Rightarrow> int" where
  "to_period D d = days_from_civil d"
| "to_period W d = (days_from_civil d + 3) div 7 + 1"
| "to_period M (y, m, d) = (int y - 1970) * 12 + (int m - 1)"
| "to_period Q d = quarter_ordinal d"
| "to_period Y d = year_of d - 1970"

text \<open>
  A table of returns: the periods of its index, the column names, and one list of cells
  for every row.
\<close>

record returns =
  columns :: "string list"
  rows :: "(int \<times> fl list) list"

text \<open>\<open>df.dropna()\<close> drops a row with a NaN in any column.\<close>

definition has_nan :: "'a row \<Rightarrow> bool" where
  "has_nan r \<longleftrightarrow> Float_cell NaN \<in> snd ` set (added r)"

text \<open>
  The body of the loop of \<open>get_multiple_returns\<close> on the daily table of one ticker: the
  dates become periods, the first row of every period is kept, \<open>pct\<close> is the percent
  change of \<open>adjClose\<close> between these rows, the rows with a NaN are dropped, and the
  column \<open>pct\<close>, renamed to the ticker, is selected.
\<close>

definition ticker_returns :: "period \<Rightarrow> string \<Rightarrow> 'a row list \<Rightarrow> pyerr + returns" where
  "ticker_returns period ticker df =
     (case to_datetime (map date df) of
        Inl e \<Rightarrow> Inl e
      | Inr stamps \<Rightarrow>
          (let df1 = drop_duplicates fst (zip (map (to_period period) (map date df)) df);
               df2 = zip df1 (pct_change (map (adjClose \<circ> snd) df1));
               df3 = filter (\<lambda>((k, r), pct). pct \<noteq> NaN \<and> \<not> has_nan r) df2
           in Inr \<lparr>columns = [ticker], rows = map (\<lambda>((k, r), pct). (k, [pct])) df3\<rparr>))"

text \<open>
  \<open>pd.merge(left, right, on=['date'], how='outer')\<close>: the keys of both sides in
  ascending order; a key missing on one side gets NaN there; a column name of both sides
  gets the suffixes \<open>_x\<close> and \<open>_y\<close>.
\<close>

definition matches :: "returns \<Rightarrow> int \<Rightarrow> fl list list" where
  "matches t k =
     (let found = map snd (filter (\<lambda>(k', cells). k' = k) (rows t))
      in if found = [] then [replicate (length (columns t)) NaN] else found)"

definition merge_outer :: "returns \<Rightarrow> returns \<Rightarrow> returns" where
  "merge_outer left right =
     \<lparr>columns =
        map (\<lambda>c. if c \<in> set (columns right) then c @ ''_x'' else c) (columns left)
        @ map (\<lambda>c. if c \<in> set (columns left) then c @ ''_y'' else c) (columns right),
      rows =
        concat (map (\<lambda>k. concat (map (\<lambda>a. map (\<lambda>b. (k, a @ b)) (matches right k))
                                       (matches left k)))
                 (sort (remdups (map fst (rows left) @ map fst (rows right)))))\<rparr>"

text \<open>
  The loop over the symbols. The daily call returns a table of prices; the table of an
  intraday call does not occur here.
\<close>

fun returns_loop ::
  "fmp \<Rightarrow> 'a network \<Rightarrow> period \<Rightarrow> string list \<Rightarrow> returns list \<Rightarrow> state
   \<Rightarrow> (pyerr + returns list) \<times> state" where
  "returns_loop self net period [] dfs s = (Inr dfs, s)"
| "returns_loop self net period (ticker # symbols) dfs s =
     (case historical_price_by_interval self net (Some ticker) ''1d'' s of
        (Inl e, s') \<Rightarrow> (Inl e, s')
      | (Inr (From_dict b), s') \<Rightarrow> (Inl (KeyError ''adjClose''), s')
      | (Inr (Prices df), s') \<Rightarrow>
          (case ticker_returns period ticker df of
             Inl e \<Rightarrow> (Inl e, s')
           | Inr t \<Rightarrow> returns_loop self net period symbols (dfs @ [t]) s'))"

text \<open>\<open>reduce\<close> without an initial value raises TypeError on an empty list.\<close>

fun reduce :: "('t \<Rightarrow> 't \<Rightarrow> 't) \<Rightarrow> 't list \<Rightarrow> pyerr + 't" where
  "reduce f [] = Inl TypeError"
| "reduce f (x # xs) = Inr (foldl f x xs)"

text \<open>
  \<open>get_multiple_returns\<close>. The caller's list is the object at the reference \<open>tickers\<close>;
  \<open>symbols = tickers\<close> binds the same object, so \<open>symbols.append\<close> changes the caller's
  list.
\<close>

definition get_multiple_returns ::
  "fmp \<Rightarrow> 'a network \<Rightarrow> nat \<Rightarrow> period \<Rightarrow> string option \<Rightarrow> state
   \<Rightarrow> (pyerr + returns) \<times> state" where
  "get_multiple_returns self net tickers period compare_with_index s =
     (let symbols = tickers;
          s1 = (case compare_with_index of
                  None \<Rightarrow> s
                | Some i \<Rightarrow> s\<lparr>lists := (lists s)(symbols := lists s symbols @ [i])\<rparr>)
      in case returns_loop self net period (lists s1 symbols) [] s1 of
           (Inl e, s2) \<Rightarrow> (Inl e, s2)
         | (Inr dfs, s2) \<Rightarrow> (reduce merge_outer dfs, s2))"

subsection \<open>Predicates and example inputs\<close>

definition intraday :: "string \<Rightarrow> bool" where
  "intraday interval \<longleftrightarrow>
     interval \<in> set [''4hour'', ''1hour'', ''30min'', ''15min'', ''5min'', ''1min'']"

definition self0 :: fmp where
  "self0 = \<lparr>fmp_key = ''k'', fmp_ticker = ''AAPL''\<rparr>"


definition state0 :: state where
  "state0 = \<lparr>requests = [], lists = (\<lambda>r. [])\<rparr>"


definition net_empty :: "unit network" where
  "net_empty url = \<lparr>status_code = 200, json = Empty_object\<rparr>"



definition bars0 :: "unit bar list" where
  "bars0 = [\<lparr>bar_date = (2020, 1, 6), bar_adjClose = 12, bar_fields = ()\<rparr>,
            \<lparr>bar_date = (2020, 1, 3), bar_adjClose = 10, bar_fields = ()\<rparr>,
            \<lparr>bar_date = (2020, 1, 2), bar_adjClose = 8, bar_fields = ()\<rparr>]"

definition net_ok :: "unit network" where
  "net_ok url = \<lparr>status_code = 200, json = Historical ''AAPL'' bars0\<rparr>"







text \<open>
  The changes from period to period: for every row of \<open>firsts\<close> but the first, its
  period and the change of \<open>adjClose\<close> against the row before it, where this change is
  not NaN and the row has no NaN of its own.
\<close>

definition returns_series :: "period \<Rightarrow> 'a row list \<Rightarrow> (int \<times> fl) list" where
  "returns_series p firsts =
     map (\<lambda>j. (to_period p (date (firsts ! j)),
               fl_div (adjClose (firsts ! j) - adjClose (firsts ! (j - 1)))
                 (adjClose (firsts ! (j - 1)))))
       (filter (\<lambda>j. fl_div (adjClose (firsts ! j) - adjClose (firsts ! (j - 1)))
                      (adjClose (firsts ! (j - 1))) \<noteq> NaN
                    \<and> \<not> has_nan (firsts ! j))
          [1..<length firsts])"

text \<open>
  The table of returns of one ticker, as the loop of \<open>get_multiple_returns\<close> builds it
  from the bars of the ticker.
\<close>

definition ticker_table :: "period \<Rightarrow> string \<Rightarrow> string \<Rightarrow> 'a bar list \<Rightarrow> returns" where
  "ticker_table p t sy bars =
     \<lparr>columns = [t],
      rows = map (\<lambda>(k, v). (k, [v]))
               (returns_series p
                  (drop_duplicates (to_period p \<circ> date)
                     (with_pct_change (sort_key date (map (row_of_bar sy) bars)))))\<rparr>"

text \<open>A state in which every list object is \<open>['AAPL', 'MSFT']\<close>.\<close>

definition state2 :: state where
  "state2 = \<lparr>requests = [], lists = (\<lambda>r. [''AAPL'', ''MSFT''])\<rparr>"

section \<open>Properties\<close>

subsection \<open>Percent change and columns\<close>

lemma fl_minus_one_div: "fl_minus_one (fl_div x p) = fl_div (x - p) p"
  by (simp add: fl_div_def field_simps)

lemma length_pct_change_from: "length (pct_change_from p xs) = length xs"
  by (induction xs arbitrary: p) simp_all

lemma length_pct_change: "length (pct_change xs) = length xs"
  by (cases xs) (simp_all add: length_pct_change_from)

lemma pct_change_from_nth:
  "i < length xs \<Longrightarrow>
   pct_change_from p xs ! i = fl_div ((p # xs) ! Suc i - (p # xs) ! i) ((p # xs) ! i)"
proof (induction xs arbitrary: p i)
  case Nil
  then show ?case by simp
next
  case (Cons x xs)
  show ?case
  proof (cases i)
    case 0
    then show ?thesis by (simp add: fl_minus_one_div)
  next
    case (Suc j)
    with Cons.prems have "j < length xs" by simp
    from Cons.IH [OF this, of x] Suc show ?thesis by simp
  qed
qed

lemma pct_change_nth:
  "0 < i \<Longrightarrow> i < length xs \<Longrightarrow>
   pct_change xs ! i = fl_div (xs ! i - xs ! (i - 1)) (xs ! (i - 1))"
proof (cases xs)
  case Nil
  assume "i < length xs"
  with Nil show ?thesis by simp
next
  case (Cons x ys)
  assume i: "0 < i" "i < length xs"
  then obtain j where j: "i = Suc j" by (cases i) auto
  with i Cons have "j < length ys" by simp
  from pct_change_from_nth [OF this, of x] j Cons show ?thesis by simp
qed

lemma pct_change_hd: "xs \<noteq> [] \<Longrightarrow> hd (pct_change xs) = NaN"
  by (cases xs) simp_all

lemma set_column_nth:
  "length cells = length df \<Longrightarrow> i < length df \<Longrightarrow>
   set_column name cells df ! i = (df ! i)\<lparr>added := AList.update name (cells ! i) (added (df ! i))\<rparr>"
  by (simp add: set_column_def)


lemma map_set_column:
  assumes "length cells = length df" and "\<And>r a. f (r\<lparr>added := a\<rparr>) = f r"
  shows "map f (set_column name cells df) = map f df"
  using assms by (auto simp: set_column_def list_eq_iff_nth_eq)

lemma column_set_column:
  "length cells = length df \<Longrightarrow> i < length df \<Longrightarrow>
   column name (set_column name cells df ! i) = Some (cells ! i)"
  by (simp add: set_column_nth column_def update_Some_unfold)

subsection \<open>The fetches\<close>



lemma get_historical_fmp_fst:
  "fst (get_historical_fmp net url s) =
     (if status_code (net url) = 200 then
        (case json (net url) of
           Empty_object \<Rightarrow> Inr None
         | Error_message m \<Rightarrow> Inl (KeyError ''symbol'')
         | Chart cs \<Rightarrow> Inl TypeError
         | Historical sy bars \<Rightarrow>
             if bars = [] then Inl (KeyError ''date'')
             else Inr (Some (sort_key date (map (row_of_bar sy) bars))))
      else Inl ConnectionError)"
  by (simp add: get_historical_fmp_def requests_get_def split: body.split)


lemma hpbi_fst:
  "fst (historical_price_by_interval self net ticker interval s) =
     (let t = (case ticker of Some t \<Rightarrow> t | None \<Rightarrow> fmp_ticker self) in
      if intraday interval
      then fst (get_df net (chart_url interval t (fmp_key self)) s)
      else (case fst (get_historical_fmp net (daily_url t (fmp_key self)) s) of
              Inl e \<Rightarrow> Inl e
            | Inr None \<Rightarrow> Inl TypeError
            | Inr (Some df) \<Rightarrow>
                if interval = ''1d'' then Inr (Prices (with_pct_change df))
                else resample interval (with_pct_change df)))"
  unfolding historical_price_by_interval_def Let_def intraday_def
  by (simp split: prod.split sum.split option.split)

lemma not_intraday [simp]:
  "\<not> intraday ''1d''" "\<not> intraday ''1w''" "\<not> intraday ''1m''" "\<not> intraday ''1q''"
  "\<not> intraday ''1y''"
  by (simp_all add: intraday_def)




lemma map_date_with_pct_change: "map date (with_pct_change df) = map date df"
  unfolding with_pct_change_def
  by (rule map_set_column) (simp_all add: length_pct_change)

lemma map_adjClose_with_pct_change: "map adjClose (with_pct_change df) = map adjClose df"
  unfolding with_pct_change_def
  by (rule map_set_column) (simp_all add: length_pct_change)

lemma map_date_row_of_bar: "map date (map (row_of_bar sy) bars) = map bar_date bars"
  by (simp add: row_of_bar_def)

lemma set_dates_daily:
  "set (map date (with_pct_change (sort_key date (map (row_of_bar sy) bars))))
     = set (map bar_date bars)"
  by (simp add: map_date_with_pct_change row_of_bar_def image_image)

lemma to_datetime_daily:
  "list_all valid_date (map bar_date bars) \<Longrightarrow>
   to_datetime (map date (with_pct_change (sort_key date (map (row_of_bar sy) bars))))
     = Inr (map days_from_civil
              (map date (with_pct_change (sort_key date (map (row_of_bar sy) bars)))))"
  unfolding to_datetime_def list_all_iff set_dates_daily by simp

lemma valid_bars0: "list_all valid_date (map bar_date bars0)"
  by (simp add: bars0_def days_before_year_def days_before_month_def days_in_month_def leap_def)

subsection \<open>Construction of the client\<close>

text \<open>
  C1. For every key and every ticker, also the default one, the call \<open>FMP(key, ticker)\<close>
  raises TypeError, because \<open>__init__\<close> returns the ticker string and not None: no
  instance is constructed.
\<close>

theorem FMP_raises_TypeError: "FMP key ticker = Inl TypeError"
  by (simp add: FMP_def init_def split: option.split)

subsection \<open>Errors of the fetches and of the interval check\<close>








text \<open>
  C9. On a response with status 200 whose body is the empty object,
  \<open>_get_historical_fmp\<close> returns None, and \<open>historical_price_by_interval\<close> raises
  TypeError for each of the intervals \<open>1d\<close>, \<open>1w\<close>, \<open>1m\<close>, \<open>1q\<close> and \<open>1y\<close>, by
  subscripting None.
\<close>

theorem empty_body_raises_TypeError:
  assumes "status_code (net (daily_url (case ticker of Some t \<Rightarrow> t | None \<Rightarrow> fmp_ticker self) (fmp_key self))) = 200"
    and "json (net (daily_url (case ticker of Some t \<Rightarrow> t | None \<Rightarrow> fmp_ticker self) (fmp_key self))) = Empty_object"
    and "interval = ''1d'' \<or> interval = ''1w'' \<or> interval = ''1m'' \<or> interval = ''1q''
         \<or> interval = ''1y''"
  shows "fst (get_historical_fmp net
                (daily_url (case ticker of Some t \<Rightarrow> t | None \<Rightarrow> fmp_ticker self) (fmp_key self)) s)
           = Inr None
         \<and> fst (historical_price_by_interval self net ticker interval s) = Inl TypeError"
  using assms by (auto simp: hpbi_fst get_historical_fmp_fst Let_def)

theorem empty_body_raises_TypeError_witness:
  "fst (get_historical_fmp net_empty (daily_url ''AAPL'' ''k'') state0) = Inr None
   \<and> fst (historical_price_by_interval self0 net_empty None ''1w'' state0) = Inl TypeError"
  using empty_body_raises_TypeError [where net = net_empty and ticker = None and self = self0
      and interval = "''1w''" and s = state0]
  by (simp add: net_empty_def self0_def)

subsection \<open>Determinism\<close>




subsection \<open>The daily table\<close>
lemma daily_table:
  assumes "url = daily_url (case ticker of Some t \<Rightarrow> t | None \<Rightarrow> fmp_ticker self) (fmp_key self)"
    and "status_code (net url) = 200" and "json (net url) = Historical sy bars" and "bars \<noteq> []"
  shows "fst (historical_price_by_interval self net ticker ''1d'' s)
         = Inr (Prices (with_pct_change (sort_key date (map (row_of_bar sy) bars))))"
  using assms by (simp add: hpbi_fst get_historical_fmp_fst Let_def)







subsection \<open>The calendar\<close>










subsection \<open>The first row of every key\<close>







subsection \<open>The weekly to yearly tables\<close>



















subsection \<open>The outer merge\<close>














subsection \<open>The returns of one ticker\<close>

lemma drop_duplicates_from_map:
  "drop_duplicates_from key seen (map h xs) = map h (drop_duplicates_from (key \<circ> h) seen xs)"
  by (induction xs arbitrary: seen) simp_all

lemma zip_keys:
  "drop_duplicates fst (zip (map f xs) xs) = map (\<lambda>x. (f x, x)) (drop_duplicates f xs)"
proof -
  have "zip (map f xs) xs = map (\<lambda>x. (f x, x)) xs"
    by (simp add: zip_map1 zip_same_conv_map)
  moreover have "fst \<circ> (\<lambda>x. (f x, x)) = f" by (simp add: fun_eq_iff)
  ultimately show ?thesis
    by (simp add: drop_duplicates_def drop_duplicates_from_map)
qed

lemma selected_changes:
  "map (\<lambda>((k, r), pct). (k, [pct]))
     (filter (\<lambda>((k, r), pct). pct \<noteq> NaN \<and> \<not> has_nan r)
        (zip (map (\<lambda>r. (to_period p (date r), r)) firsts)
             (pct_change (map adjClose firsts))))
   = map (\<lambda>(k, v). (k, [v])) (returns_series p firsts)"
proof (cases firsts)
  case Nil
  then show ?thesis by (simp add: returns_series_def)
next
  case (Cons f fs)
  let ?n = "length firsts"
  let ?pcts = "pct_change (map adjClose firsts)"
  let ?h = "\<lambda>j. ((to_period p (date (firsts ! j)), firsts ! j), ?pcts ! j)"
  let ?chg = "\<lambda>j. fl_div (adjClose (firsts ! j) - adjClose (firsts ! (j - 1)))
                     (adjClose (firsts ! (j - 1)))"
  have z: "zip (map (\<lambda>r. (to_period p (date r), r)) firsts) ?pcts = map ?h [0..<?n]"
    by (rule nth_equalityI) (simp_all add: length_pct_change)
  have "0 < ?n" using Cons by simp
  then have upt: "[0..<?n] = 0 # [1..<?n]"
    using upt_conv_Cons [of 0 ?n] by (simp del: upt_Suc)
  have zero: "?pcts ! 0 = NaN" using Cons by simp
  have later: "?pcts ! j = ?chg j" if "j \<in> set [1..<?n]" for j
  proof -
    from that have j: "0 < j" "j < ?n" "j - 1 < ?n" by auto
    then show ?thesis using nth_map [of j firsts adjClose] nth_map [of "j - 1" firsts adjClose]
      by (simp add: pct_change_nth)
  qed
  have "filter (\<lambda>((k, r), pct). pct \<noteq> NaN \<and> \<not> has_nan r) (map ?h [0..<?n])
        = map ?h (filter (\<lambda>j. ?pcts ! j \<noteq> NaN \<and> \<not> has_nan (firsts ! j)) [1..<?n])"
    unfolding upt by (simp add: filter_map comp_def zero)
  also have "filter (\<lambda>j. ?pcts ! j \<noteq> NaN \<and> \<not> has_nan (firsts ! j)) [1..<?n]
        = filter (\<lambda>j. ?chg j \<noteq> NaN \<and> \<not> has_nan (firsts ! j)) [1..<?n]"
    by (rule filter_cong) (simp_all add: later)
  finally have "map (\<lambda>((k, r), pct). (k, [pct]))
       (filter (\<lambda>((k, r), pct). pct \<noteq> NaN \<and> \<not> has_nan r) (map ?h [0..<?n]))
     = map (\<lambda>j. (to_period p (date (firsts ! j)), [?pcts ! j]))
         (filter (\<lambda>j. ?chg j \<noteq> NaN \<and> \<not> has_nan (firsts ! j)) [1..<?n])"
    by (simp add: comp_def)
  also have "\<dots> = map (\<lambda>j. (to_period p (date (firsts ! j)), [?chg j]))
         (filter (\<lambda>j. ?chg j \<noteq> NaN \<and> \<not> has_nan (firsts ! j)) [1..<?n])"
    by (rule map_cong) (simp_all add: later)
  finally show ?thesis unfolding z by (simp add: returns_series_def comp_def)
qed

lemma ticker_returns_daily:
  assumes "list_all valid_date (map bar_date bars)"
    and "daily = with_pct_change (sort_key date (map (row_of_bar sy) bars))"
  shows "ticker_returns p t daily
         = Inr \<lparr>columns = [t],
                rows = map (\<lambda>(k, v). (k, [v]))
                         (returns_series p (drop_duplicates (to_period p \<circ> date) daily))\<rparr>"
proof -
  have stamps: "to_datetime (map date daily) = Inr (map days_from_civil (map date daily))"
    unfolding assms(2) using assms(1) by (rule to_datetime_daily)
  have keyed: "drop_duplicates fst (zip (map (to_period p) (map date daily)) daily)
               = map (\<lambda>r. (to_period p (date r), r)) (drop_duplicates (to_period p \<circ> date) daily)"
    using zip_keys [of "to_period p \<circ> date" daily] by (simp add: comp_def)
  show ?thesis
    unfolding ticker_returns_def stamps Let_def keyed
    using selected_changes [of p "drop_duplicates (to_period p \<circ> date) daily"]
    by (simp add: comp_def)
qed





subsection \<open>The loop over the symbols\<close>
lemma hpbi_lists:
  "lists (snd (historical_price_by_interval self net ticker interval s)) = lists s"
proof -
  have a: "lists (snd (get_df net url s)) = lists s" for url
    by (simp add: get_df_def requests_get_def)
  have b: "lists (snd (get_historical_fmp net url s)) = lists s" for url
    by (simp add: get_historical_fmp_def requests_get_def split: body.split)
  have "snd (case p of (Inl e, s') \<Rightarrow> (Inl e, s')
                     | (Inr None, s') \<Rightarrow> (Inl TypeError, s')
                     | (Inr (Some df), s') \<Rightarrow> (f df, s')) = snd p"
    for p :: "(pyerr + 'a row list option) \<times> state" and f :: "'a row list \<Rightarrow> pyerr + 'a frame"
    by (simp split: prod.split sum.split option.split)
  then show ?thesis
    unfolding historical_price_by_interval_def Let_def by (simp add: a b)
qed

lemma returns_loop_lists:
  "lists (snd (returns_loop self net p symbols dfs s)) = lists s"
proof (induction symbols arbitrary: dfs s)
  case Nil
  show ?case by simp
next
  case (Cons t ts)
  obtain r s' where h: "historical_price_by_interval self net (Some t) ''1d'' s = (r, s')"
    by (cases "historical_price_by_interval self net (Some t) ''1d'' s")
  with hpbi_lists [of self net "Some t" "''1d''" s] have s': "lists s' = lists s" by simp
  show ?case
    using h s' Cons.IH by (simp split: sum.split frame.split)
qed

lemma get_multiple_returns_lists:
  "lists (snd (get_multiple_returns self net tickers p compare_with_index s))
   = (case compare_with_index of
        None \<Rightarrow> lists s
      | Some i \<Rightarrow> (lists s)(tickers := lists s tickers @ [i]))"
proof -
  have "snd (case q of (Inl e, s2) \<Rightarrow> (Inl e, s2)
                      | (Inr dfs, s2) \<Rightarrow> (reduce merge_outer dfs, s2)) = snd q"
    for q :: "(pyerr + returns list) \<times> state"
    by (simp split: prod.split sum.split)
  then show ?thesis
    unfolding get_multiple_returns_def Let_def
    by (simp add: returns_loop_lists split: option.split)
qed

lemma returns_loop_tables:
  assumes "\<And>t. t \<in> set symbols \<Longrightarrow>
             status_code (net (daily_url t (fmp_key self))) = 200
             \<and> json (net (daily_url t (fmp_key self))) = Historical (sy t) (bars t)
             \<and> bars t \<noteq> [] \<and> list_all valid_date (map bar_date (bars t))"
  shows "fst (returns_loop self net p symbols dfs s)
         = Inr (dfs @ map (\<lambda>t. ticker_table p t (sy t) (bars t)) symbols)"
  using assms
proof (induction symbols arbitrary: dfs s)
  case Nil
  show ?case by simp
next
  case (Cons t ts)
  let ?daily = "with_pct_change (sort_key date (map (row_of_bar (sy t)) (bars t)))"
  from Cons.prems [of t]
  have ok: "status_code (net (daily_url t (fmp_key self))) = 200"
    "json (net (daily_url t (fmp_key self))) = Historical (sy t) (bars t)"
    "bars t \<noteq> []" "list_all valid_date (map bar_date (bars t))" by simp_all
  have "fst (historical_price_by_interval self net (Some t) ''1d'' s) = Inr (Prices ?daily)"
    using ok(1-3) by (intro daily_table) simp_all
  then obtain s' where h: "historical_price_by_interval self net (Some t) ''1d'' s
                           = (Inr (Prices ?daily), s')"
    by (cases "historical_price_by_interval self net (Some t) ''1d'' s") simp
  have tr: "ticker_returns p t ?daily = Inr (ticker_table p t (sy t) (bars t))"
    unfolding ticker_table_def using ok(4) by (intro ticker_returns_daily) simp_all
  have "fst (returns_loop self net p ts (dfs @ [ticker_table p t (sy t) (bars t)]) s')
        = Inr ((dfs @ [ticker_table p t (sy t) (bars t)])
               @ map (\<lambda>t. ticker_table p t (sy t) (bars t)) ts)"
    using Cons.prems by (intro Cons.IH) simp
  then show ?case by (simp add: h tr)
qed

lemma get_multiple_returns_tables:
  assumes "symbols = lists s tickers @ (case compare_with_index of None \<Rightarrow> [] | Some i \<Rightarrow> [i])"
    and "\<And>t. t \<in> set symbols \<Longrightarrow>
             status_code (net (daily_url t (fmp_key self))) = 200
             \<and> json (net (daily_url t (fmp_key self))) = Historical (sy t) (bars t)
             \<and> bars t \<noteq> [] \<and> list_all valid_date (map bar_date (bars t))"
  shows "fst (get_multiple_returns self net tickers p compare_with_index s)
         = reduce merge_outer (map (\<lambda>t. ticker_table p t (sy t) (bars t)) symbols)"
proof -
  define s1 where "s1 = (case compare_with_index of
                  None \<Rightarrow> s
                | Some i \<Rightarrow> s\<lparr>lists := (lists s)(tickers := lists s tickers @ [i])\<rparr>)"
  have sym: "lists s1 tickers = symbols"
    unfolding s1_def assms(1) by (simp split: option.split)
  have "fst (returns_loop self net p (lists s1 tickers) [] s1)
        = Inr ([] @ map (\<lambda>t. ticker_table p t (sy t) (bars t)) symbols)"
    unfolding sym using assms(2) by (rule returns_loop_tables)
  then obtain s2 where "returns_loop self net p (lists s1 tickers) [] s1
        = (Inr (map (\<lambda>t. ticker_table p t (sy t) (bars t)) symbols), s2)"
    by (cases "returns_loop self net p (lists s1 tickers) [] s1") simp
  then show ?thesis
    unfolding get_multiple_returns_def Let_def s1_def [symmetric] by simp
qed







lemma net_ok_symbols:
  "\<forall>t \<in> set symbols.
     status_code (net_ok (daily_url t (fmp_key self0))) = 200
     \<and> json (net_ok (daily_url t (fmp_key self0))) = Historical ''AAPL'' bars0
     \<and> bars0 \<noteq> [] \<and> list_all valid_date (map bar_date bars0)"
  using valid_bars0 by (simp add: net_ok_def) (simp add: bars0_def)


text \<open>
  C5. The claim that \<open>get_multiple_returns\<close> leaves the caller's list of tickers
  unchanged does not hold of the code when an index to compare with is given: the call
  with the list \<open>['AAPL', 'MSFT']\<close> and the index \<open>'SPY'\<close> returns a table, and the
  caller's list is \<open>['AAPL', 'MSFT', 'SPY']\<close> afterwards. Without an index the list
  objects are unchanged.
\<close>

theorem caller_list_changed:
  "lists state2 0 = [''AAPL'', ''MSFT'']
   \<and> \<not> isl (fst (get_multiple_returns self0 net_ok 0 M (Some ''SPY'') state2))
   \<and> lists (snd (get_multiple_returns self0 net_ok 0 M (Some ''SPY'') state2)) 0
       = [''AAPL'', ''MSFT'', ''SPY'']"
proof -
  have a: "[''AAPL'', ''MSFT'', ''SPY'']
           = lists state2 0 @ (case Some ''SPY'' of None \<Rightarrow> [] | Some i \<Rightarrow> [i])"
    by (simp add: state2_def)
  have "fst (get_multiple_returns self0 net_ok 0 M (Some ''SPY'') state2)
        = reduce merge_outer
            (map (\<lambda>t. ticker_table M t ''AAPL'' bars0) [''AAPL'', ''MSFT'', ''SPY''])"
    using a net_ok_symbols [of "[''AAPL'', ''MSFT'', ''SPY'']"]
    by (intro get_multiple_returns_tables) blast+
  then have "\<not> isl (fst (get_multiple_returns self0 net_ok 0 M (Some ''SPY'') state2))"
    by simp
  then show ?thesis
    by (simp add: get_multiple_returns_lists) (simp add: state2_def)
qed

lemma caller_list_unchanged:
  "lists (snd (get_multiple_returns self net tickers p None s)) = lists s"
  by (simp add: get_multiple_returns_lists)

subsection \<open>The failure modes\<close>







end
